theory Spec2Isabelle
  imports Complex_Main "HOL-Library.AList" "HOL-Library.Product_Lexorder"
    "HOL-Library.Char_ord" "HOL-Library.List_Lexorder"
begin

section \<open>Numbers, dates and errors\<close>

text \<open>
  Python's \<open>Decimal\<close> amounts are modelled by the rational number they denote. Decimal
  arithmetic is exact as long as results fit the context precision of 28 significant digits;
  amounts beyond that precision, the special values NaN and Infinity, and the difference
  between equal decimals of different exponent (\<open>1.5\<close> and \<open>1.50\<close>) are outside the model.
\<close>

type_synonym decimal = rat

text \<open>
  \<open>float(tx.amount)\<close>: the classifier only ever compares the converted amount with zero.
  The conversion keeps the sign of every decimal of magnitude above \<open>2^-1075\<close>; it is
  modelled by the exact value.
\<close>

definition to_float :: "decimal \<Rightarrow> rat" where
  "to_float x = x"

text \<open>
  A \<open>datetime\<close> is an instant in microseconds since the epoch (UTC) with the offset of its
  own time zone. A naive datetime is read as UTC by \<open>_normalize_datetime\<close> and compares by
  its wall-clock fields, so it is represented with offset 0. Python refuses to compare a naive
  with an aware datetime (TypeError); a batch mixing the two is outside the model.
\<close>

record datetime =
  utc :: int
  utcoffset :: int

definition MICROS_PER_DAY :: int where
  "MICROS_PER_DAY = 86400000000"

text \<open>\<open>dt.date()\<close>: the calendar day of the wall-clock time, as a day number (day 0 is 1970-01-01).\<close>

definition date_of :: "datetime \<Rightarrow> int" where
  "date_of dt = (utc dt + utcoffset dt) div MICROS_PER_DAY"

text \<open>\<open>date.weekday()\<close>: Monday is 0; 1970-01-01 was a Thursday.\<close>

definition weekday :: "int \<Rightarrow> int" where
  "weekday d = (d + 3) mod 7"

datatype py_error = ValueError | IndexError | TypeError | KeyError

text \<open>Truthiness of an optional string: \<open>None\<close> and the empty string are falsy.\<close>

fun truthy :: "string option \<Rightarrow> bool" where
  "truthy None = False"
| "truthy (Some s) = (s \<noteq> [])"

definition startswith :: "string \<Rightarrow> string \<Rightarrow> bool" where
  "startswith s p = (take (length p) s = p)"

section \<open>Operation mapper\<close>

datatype KryptosekkenTransactionType =
    HANDEL | ERVERV | MINING | INNTEKT | TAP | FORBRUK | RENTEINNTEKT
  | OVERFORING_INN | OVERFORING_UT | GAVE_INN | GAVE_UT | TAP_UTEN_FRADRAG
  | FORVALTNINGSKOSTNAD

text \<open>The enum's \<open>.value\<close> strings; the letter o-slash is its two UTF-8 bytes.\<close>

fun type_value :: "KryptosekkenTransactionType \<Rightarrow> string" where
  "type_value HANDEL = ''Handel''"
| "type_value ERVERV = ''Erverv''"
| "type_value MINING = ''Mining''"
| "type_value INNTEKT = ''Inntekt''"
| "type_value TAP = ''Tap''"
| "type_value FORBRUK = ''Forbruk''"
| "type_value RENTEINNTEKT = ''Renteinntekt''"
| "type_value OVERFORING_INN = ''Overf'' @ [CHR 0xC3, CHR 0xB8] @ ''ring-Inn''"
| "type_value OVERFORING_UT = ''Overf'' @ [CHR 0xC3, CHR 0xB8] @ ''ring-Ut''"
| "type_value GAVE_INN = ''Gave-Inn''"
| "type_value GAVE_UT = ''Gave-Ut''"
| "type_value TAP_UTEN_FRADRAG = ''Tap-uten-fradrag''"
| "type_value FORVALTNINGSKOSTNAD = ''Forvaltningskostnad''"

definition OPERATION_MAPPING :: "(string \<times> KryptosekkenTransactionType) list" where
  "OPERATION_MAPPING =
   [(''Staking reward'', INNTEKT),
    (''Freezer staking bonus'', INNTEKT),
    (''5 years freezer reward'', INNTEKT),
    (''Freezer liquidity mining bonus'', INNTEKT),
    (''Earn reward'', INNTEKT),
    (''YieldVault reward'', INNTEKT),
    (''Referral reward'', INNTEKT),
    (''Lending reward'', INNTEKT),
    (''Promotion bonus'', INNTEKT),
    (''Rewards from DeFiChain voting'', INNTEKT),
    (''Entry staking wallet'', INNTEKT),
    (''Entry staking wallet: Signup bonus'', INNTEKT),
    (''Entry staking wallet: Referral signup bonus'', INNTEKT),
    (''Entry staking wallet: Promotion bonus'', INNTEKT),
    (''Deposit'', ERVERV),
    (''Withdrawal'', OVERFORING_UT),
    (''Exit staking wallet'', OVERFORING_INN),
    (''Exited Earn'', HANDEL),
    (''Exited YieldVault'', OVERFORING_INN),
    (''Adjusted Earn entry'', OVERFORING_INN),
    (''Removed liquidity'', HANDEL),
    (''Address creation fee'', FORVALTNINGSKOSTNAD),
    (''Withdrawal fee'', FORVALTNINGSKOSTNAD),
    (''Added liquidity'', HANDEL),
    (''Entered YieldVault'', OVERFORING_UT),
    (''Entered Earn'', HANDEL),
    (''Withdrew for swap'', OVERFORING_UT),
    (''Paid swap fee'', FORVALTNINGSKOSTNAD),
    (''Converted ETH Staking Shares to csETH'', INNTEKT),
    (''Buy token'', INNTEKT)]"

text \<open>\<open>get_transaction_type\<close>: the amount is optional; an unknown label raises ValueError.\<close>

definition get_transaction_type ::
    "string \<Rightarrow> rat option \<Rightarrow> py_error + KryptosekkenTransactionType" where
  "get_transaction_type operation amount =
     (if operation = ''Entry staking wallet'' \<and> amount \<noteq> None then
        (if the amount < 0 then Inr OVERFORING_UT else Inr INNTEKT)
      else case map_of OPERATION_MAPPING operation of
        Some ty \<Rightarrow> Inr ty
      | None \<Rightarrow>
          if startswith operation ''Add liquidity '' \<or> startswith operation ''Remove liquidity ''
          then Inr HANDEL
          else if startswith operation ''Liquidity mining reward '' then Inr INNTEKT
          else Inl ValueError)"

definition is_income_operation :: "string \<Rightarrow> rat option \<Rightarrow> bool" where
  "is_income_operation operation amount =
     (case get_transaction_type operation amount of
        Inr ty \<Rightarrow> ty = INNTEKT
      | Inl _ \<Rightarrow> False)"

definition should_skip_transaction :: "string \<Rightarrow> rat option \<Rightarrow> bool" where
  "should_skip_transaction operation amount =
     (operation = ''Entry staking wallet'' \<and> amount \<noteq> None \<and> the amount < 0)"

definition requires_grouping :: "string \<Rightarrow> bool" where
  "requires_grouping operation =
     (if operation \<in> set [''Withdrew for swap'', ''Paid swap fee'', ''Deposit'',
                           ''Added liquidity'', ''Removed liquidity'',
                           ''Converted ETH Staking Shares to csETH'']
      then True
      else startswith operation ''Add liquidity '' \<or> startswith operation ''Remove liquidity '')"

section \<open>Events, groups and canonical transactions\<close>

record CakeTransaction =
  date :: datetime
  operation :: string
  amount :: decimal
  coin_asset :: string
  fiat_value :: decimal
  fiat_currency :: string
  transaction_id :: "string option"
  withdrawal_address :: "string option"
  reference :: "string option"
  related_reference_id :: "string option"
  original_index :: "nat option"

record TransactionGroup =
  transactions :: "CakeTransaction list"
  group_type :: string
  reference_id :: "string option"

section \<open>Transaction grouper\<close>

text \<open>
  Methods keep their names without the leading underscore.
\<close>

text \<open>
  A \<open>defaultdict(list)\<close> is an association list in insertion order: appending under a key
  that is present extends its list in place, a new key goes to the end.
\<close>

fun dict_append :: "('k \<times> 'v list) list \<Rightarrow> 'k \<Rightarrow> 'v \<Rightarrow> ('k \<times> 'v list) list" where
  "dict_append [] k v = [(k, [v])]"
| "dict_append ((k', vs) # d) k v =
     (if k' = k then (k', vs @ [v]) # d else (k', vs) # dict_append d k v)"

text \<open>\<open>min(tx.date for tx in ...)\<close>: the first of the earliest dates; ValueError on no dates.\<close>

fun earliest :: "datetime \<Rightarrow> datetime list \<Rightarrow> datetime" where
  "earliest d [] = d"
| "earliest d (x # xs) = earliest (if utc x < utc d then x else d) xs"

definition timestamp :: "TransactionGroup \<Rightarrow> py_error + datetime" where
  "timestamp g =
     (case transactions g of
        [] \<Rightarrow> Inl ValueError
      | t # ts \<Rightarrow> Inr (earliest (date t) (map date ts)))"

definition normalize_datetime :: "datetime \<Rightarrow> datetime" where
  "normalize_datetime dt = dt\<lparr>utcoffset := 0\<rparr>"

definition tx_float_amount :: "CakeTransaction \<Rightarrow> rat option" where
  "tx_float_amount tx = Some (to_float (amount tx))"

definition get_group_economic_priority :: "TransactionGroup \<Rightarrow> nat" where
  "get_group_economic_priority g =
     (if list_ex (\<lambda>tx. is_income_operation (operation tx) (tx_float_amount tx)) (transactions g)
      then 1
      else if group_type g = ''swap'' then 2
      else if group_type g = ''liquidity'' then 3
      else 4)"

definition determine_group_type :: "CakeTransaction list \<Rightarrow> string" where
  "determine_group_type txs =
     (if list_ex (\<lambda>tx. startswith (operation tx) ''Add liquidity''
                        \<or> operation tx = ''Added liquidity'') txs
      then ''add_liquidity''
      else if list_ex (\<lambda>tx. startswith (operation tx) ''Remove liquidity''
                        \<or> operation tx = ''Removed liquidity'') txs
      then ''remove_liquidity''
      else ''swap'')"

text \<open>\<open>tx_list.sort(key=lambda t: t.date)\<close>: a stable sort by instant.\<close>

definition sort_by_date :: "CakeTransaction list \<Rightarrow> CakeTransaction list" where
  "sort_by_date txs = sort_key (\<lambda>t. utc (date t)) txs"

definition mk_group :: "CakeTransaction list \<Rightarrow> string \<Rightarrow> string option \<Rightarrow> TransactionGroup" where
  "mk_group txs gt ref = \<lparr>transactions = txs, group_type = gt, reference_id = ref\<rparr>"

subsection \<open>Reward aggregation\<close>

definition daily_key :: "CakeTransaction \<Rightarrow> int \<times> string" where
  "daily_key tx = (date_of (date tx), coin_asset tx)"

definition is_income_tx :: "CakeTransaction \<Rightarrow> bool" where
  "is_income_tx tx = is_income_operation (operation tx) (tx_float_amount tx)"

definition daily_step ::
    "CakeTransaction \<Rightarrow> ((int \<times> string) \<times> CakeTransaction list) list
       \<Rightarrow> ((int \<times> string) \<times> CakeTransaction list) list" where
  "daily_step tx daily_groups =
     (if is_income_tx tx then dict_append daily_groups (daily_key tx) tx else daily_groups)"

text \<open>
  In the two functions below \<open>hd (transactions g)\<close> is \<open>g.transactions[0]\<close> and
  \<open>projr (timestamp g)\<close> is \<open>g.timestamp\<close>; both raise on an empty group in Python. They are
  applied to groups of at least two members only.
\<close>

definition monday_of :: "TransactionGroup \<Rightarrow> int" where
  "monday_of g =
     (let group_date = date_of (projr (timestamp g)) in group_date - weekday group_date)"

definition weekly_step ::
    "TransactionGroup \<Rightarrow> (int \<times> CakeTransaction list) list \<Rightarrow> (int \<times> CakeTransaction list) list" where
  "weekly_step daily_group weekly_groups =
     fold (\<lambda>tx d. dict_append d (monday_of daily_group) tx) (transactions daily_group) weekly_groups"

definition aggregate_eth_daily_to_weekly :: "TransactionGroup list \<Rightarrow> TransactionGroup list" where
  "aggregate_eth_daily_to_weekly eth_daily_groups =
     map (\<lambda>(monday, tx_list). mk_group (sort_by_date tx_list) ''daily_rewards'' None)
       (filter (\<lambda>(monday, tx_list). length tx_list > 1)
          (fold weekly_step eth_daily_groups []))"

definition daily_reward_groups :: "CakeTransaction list \<Rightarrow> TransactionGroup list" where
  "daily_reward_groups txs =
     map (\<lambda>(group_key, tx_list). mk_group (sort_by_date tx_list) ''daily_rewards'' None)
       (filter (\<lambda>(group_key, tx_list). length tx_list > 1)
          (fold daily_step txs []))"

definition group_daily_rewards :: "CakeTransaction list \<Rightarrow> TransactionGroup list" where
  "group_daily_rewards txs =
     (let groups = daily_reward_groups txs;
          eth_daily_groups = filter (\<lambda>g. coin_asset (hd (transactions g)) = ''ETH'') groups;
          non_eth_groups = filter (\<lambda>g. coin_asset (hd (transactions g)) \<noteq> ''ETH'') groups
      in if eth_daily_groups \<noteq> []
         then non_eth_groups @ aggregate_eth_daily_to_weekly eth_daily_groups
         else non_eth_groups)"

subsection \<open>Grouping a batch\<close>

definition MAX_TIME_DELTA :: int where
  "MAX_TIME_DELTA = 600000000"

definition assign_indices :: "CakeTransaction list \<Rightarrow> CakeTransaction list" where
  "assign_indices txs = map (\<lambda>(i, tx). tx\<lparr>original_index := Some i\<rparr>) (enumerate 0 txs)"

definition skipped :: "CakeTransaction \<Rightarrow> bool" where
  "skipped tx = should_skip_transaction (operation tx) (tx_float_amount tx)"

definition filter_transactions :: "CakeTransaction list \<Rightarrow> CakeTransaction list" where
  "filter_transactions txs = filter (\<lambda>tx. \<not> skipped tx) (assign_indices txs)"

definition in_reference_group :: "CakeTransaction \<Rightarrow> bool" where
  "in_reference_group tx =
     (truthy (related_reference_id tx) \<and> requires_grouping (operation tx))"

text \<open>The state of the first two loops: \<open>initial_groups\<close> and the list of ungrouped events.\<close>

type_synonym grouping = "(string \<times> CakeTransaction list) list \<times> CakeTransaction list"

definition reference_step :: "CakeTransaction \<Rightarrow> grouping \<Rightarrow> grouping" where
  "reference_step tx st =
     (case st of (initial_groups, single_txs) \<Rightarrow>
        if in_reference_group tx
        then (dict_append initial_groups (the (related_reference_id tx)) tx, single_txs)
        else (initial_groups, single_txs @ [tx]))"

definition is_liquidity_result :: "CakeTransaction \<Rightarrow> bool" where
  "is_liquidity_result tx =
     (truthy (reference tx) \<and> operation tx \<in> set [''Added liquidity'', ''Removed liquidity''])"

definition attach_step :: "CakeTransaction \<Rightarrow> grouping \<Rightarrow> grouping" where
  "attach_step tx st =
     (case st of (initial_groups, remaining_single_txs) \<Rightarrow>
        if is_liquidity_result tx then
          (if the (reference tx) \<in> set (map fst initial_groups)
           then (dict_append initial_groups (the (reference tx)) tx, remaining_single_txs)
           else (initial_groups, remaining_single_txs @ [tx]))
        else (initial_groups, remaining_single_txs @ [tx]))"

text \<open>
  The temporal split of one sorted list: \<open>prev\<close> is \<open>tx_list[i - 1]\<close>, \<open>sub\<close> the sub-group
  being collected.
\<close>

fun split_time_gaps ::
    "CakeTransaction \<Rightarrow> CakeTransaction list \<Rightarrow> CakeTransaction list \<Rightarrow> CakeTransaction list list" where
  "split_time_gaps prev sub [] = [sub]"
| "split_time_gaps prev sub (tx # rest) =
     (if utc (date tx) - utc (date prev) > MAX_TIME_DELTA
      then sub # split_time_gaps tx [tx] rest
      else split_time_gaps tx (sub @ [tx]) rest)"

definition split_group :: "CakeTransaction list \<Rightarrow> CakeTransaction list list" where
  "split_group tx_list =
     (case sort_by_date tx_list of
        [] \<Rightarrow> []
      | tx # rest \<Rightarrow> split_time_gaps tx [tx] rest)"

text \<open>
  \<open>a or b\<close> on optional strings. Below, \<open>hd tx_list\<close> is \<open>tx_list[0]\<close> of a sub-group of the
  temporal split and \<open>hd (transactions g)\<close>, \<open>projr (timestamp g)\<close> and \<open>the (original_index tx)\<close>
  read a group of the final list: all of these have a first member with an index.
\<close>

definition or_else :: "string option \<Rightarrow> string option \<Rightarrow> string option" where
  "or_else a b = (if truthy a then a else b)"

definition correlated_group :: "CakeTransaction list \<Rightarrow> TransactionGroup" where
  "correlated_group tx_list =
     mk_group tx_list (determine_group_type tx_list)
       (or_else (related_reference_id (hd tx_list)) (reference (hd tx_list)))"

definition group_sort_key :: "TransactionGroup \<Rightarrow> int \<times> nat \<times> nat" where
  "group_sort_key g =
     (utc (normalize_datetime (projr (timestamp g))),
      get_group_economic_priority g,
      the (original_index (hd (transactions g))))"

text \<open>
  The groups before the final sort. Object identity \<open>id(tx)\<close> is the original index, which
  is unique among the events of a batch.
\<close>

definition unsorted_groups :: "CakeTransaction list \<Rightarrow> TransactionGroup list" where
  "unsorted_groups txs =
     (let filtered = filter_transactions txs;
          st1 = fold reference_step filtered ([], []);
          st2 = fold attach_step (snd st1) (fst st1, []);
          initial_groups = fst st2;
          single_txs = snd st2;
          split_groups = concat (map (\<lambda>(ref_id, tx_list). split_group tx_list) initial_groups);
          reward_groups = group_daily_rewards single_txs;
          grouped_ids = concat (map (\<lambda>g. map original_index (transactions g)) reward_groups)
      in map correlated_group split_groups
         @ reward_groups
         @ map (\<lambda>tx. mk_group [tx] ''single'' None)
             (filter (\<lambda>tx. original_index tx \<notin> set grouped_ids) single_txs))"

definition group_transactions :: "CakeTransaction list \<Rightarrow> TransactionGroup list" where
  "group_transactions txs = sort_key group_sort_key (unsorted_groups txs)"

section \<open>Currency converter\<close>

text \<open>The loaded rates: a dictionary from day number to the USD/NOK rate of that day.\<close>

record CurrencyConverter =
  rate_cache :: "int \<rightharpoonup> decimal"

definition LOOKUP_RANGE_DAYS :: nat where
  "LOOKUP_RANGE_DAYS = 14"

definition FALLBACK_USD_NOK_RATE :: decimal where
  "FALLBACK_USD_NOK_RATE = 10"

definition NOK_PRECISION :: decimal where
  "NOK_PRECISION = 1 / 100"

text \<open>One of the two search loops: the rate of the first of the given days that has one.\<close>

fun first_rate :: "(int \<rightharpoonup> decimal) \<Rightarrow> int list \<Rightarrow> decimal option" where
  "first_rate cache [] = None"
| "first_rate cache (check_date # rest) =
     (case cache check_date of Some r \<Rightarrow> Some r | None \<Rightarrow> first_rate cache rest)"

definition find_rate_for_date :: "CurrencyConverter \<Rightarrow> int \<Rightarrow> decimal option" where
  "find_rate_for_date c target_date =
     (case rate_cache c target_date of
        Some r \<Rightarrow> Some r
      | None \<Rightarrow>
         (case first_rate (rate_cache c)
                 (map (\<lambda>days_back. target_date - int days_back) [1..<LOOKUP_RANGE_DAYS + 1]) of
            Some r \<Rightarrow> Some r
          | None \<Rightarrow>
              first_rate (rate_cache c)
                (map (\<lambda>days_forward. target_date + int days_forward) [1..<LOOKUP_RANGE_DAYS + 1])))"

text \<open>The converter's only effect is its log: a warning names the day that had no rate.\<close>

datatype log_entry = NoRateWarning int

definition get_usd_to_nok_rate :: "CurrencyConverter \<Rightarrow> datetime \<Rightarrow> decimal \<times> log_entry list" where
  "get_usd_to_nok_rate c transaction_date =
     (let trade_date = date_of transaction_date in
      case find_rate_for_date c trade_date of
        None \<Rightarrow> (FALLBACK_USD_NOK_RATE, [NoRateWarning trade_date])
      | Some rate \<Rightarrow> (rate, []))"

text \<open>\<open>Decimal.quantize\<close> under the default rounding of the context, ROUND_HALF_EVEN.\<close>

definition round_half_even :: "rat \<Rightarrow> int" where
  "round_half_even x =
     (let f = \<lfloor>x\<rfloor>; r = x - of_int f
      in if r < 1 / 2 then f else if 1 / 2 < r then f + 1 else if even f then f else f + 1)"

definition quantize :: "decimal \<Rightarrow> decimal \<Rightarrow> decimal" where
  "quantize x prec = of_int (round_half_even (x / prec)) * prec"

definition convert_usd_to_nok ::
    "CurrencyConverter \<Rightarrow> decimal \<Rightarrow> datetime \<Rightarrow> decimal \<times> log_entry list" where
  "convert_usd_to_nok c usd_amount transaction_date =
     (if usd_amount = 0 then (0, [])
      else case get_usd_to_nok_rate c transaction_date of
        (exchange_rate, warnings) \<Rightarrow>
          (quantize (usd_amount * exchange_rate) NOK_PRECISION, warnings))"

text \<open>The value alone, as the grouper uses it.\<close>

definition nok_of :: "CurrencyConverter \<Rightarrow> decimal \<Rightarrow> datetime \<Rightarrow> decimal" where
  "nok_of c usd_amount transaction_date = fst (convert_usd_to_nok c usd_amount transaction_date)"

section \<open>Group converter\<close>

text \<open>
  A note is its text; where an f-string renders a NOK value with \<open>:.2f\<close> the note keeps the
  text before the value, the value and the text after it.
\<close>

datatype note_text = Text string | NokText string decimal string

record KryptosekkenTransaction =
  tidspunkt :: "datetime option"
  type :: string
  inn :: "decimal option"
  inn_valuta :: "string option"
  ut :: "decimal option"
  ut_valuta :: "string option"
  gebyr :: "decimal option"
  gebyr_valuta :: "string option"
  marked :: "string option"
  notat :: "note_text option"
  row_num :: "nat option"

definition digit_char :: "nat \<Rightarrow> char" where
  "digit_char d = char_of (48 + d)"

fun show_nat :: "nat \<Rightarrow> string" where
  "show_nat n = (if n < 10 then [digit_char n] else show_nat (n div 10) @ [digit_char (n mod 10)])"

declare show_nat.simps [simp del]

text \<open>
  Operation labels are ASCII: the classes of the regular expression are over bytes, and
  white space is what \<open>str.isspace\<close> accepts among them.
\<close>

definition is_alnum :: "char \<Rightarrow> bool" where
  "is_alnum ch =
     (let n = (of_char ch :: nat)
      in (97 \<le> n \<and> n \<le> 122) \<or> (65 \<le> n \<and> n \<le> 90) \<or> (48 \<le> n \<and> n \<le> 57))"

definition is_space :: "char \<Rightarrow> bool" where
  "is_space ch =
     (let n = (of_char ch :: nat) in n = 32 \<or> (9 \<le> n \<and> n \<le> 13) \<or> (28 \<le> n \<and> n \<le> 31))"

definition strip :: "string \<Rightarrow> string" where
  "strip s = rev (dropWhile is_space (rev (dropWhile is_space s)))"

definition simplify_operation :: "string \<Rightarrow> string" where
  "simplify_operation op =
     (let simplified = filter (\<lambda>ch. is_alnum ch \<or> is_space ch) op
      in strip (if length simplified > 30 then take 30 simplified else simplified))"

fun contains :: "string \<Rightarrow> string \<Rightarrow> bool" where
  "contains sub [] = (sub = [])"
| "contains sub (ch # rest) = (startswith (ch # rest) sub \<or> contains sub rest)"

text \<open>\<open>str.replace\<close> for a non-empty pattern.\<close>

function str_replace :: "string \<Rightarrow> string \<Rightarrow> string \<Rightarrow> string" where
  "str_replace old new [] = []"
| "str_replace old new (ch # rest) =
     (if old \<noteq> [] \<and> startswith (ch # rest) old
      then new @ str_replace old new (drop (length old) (ch # rest))
      else ch # str_replace old new rest)"
  by pat_completeness auto
termination
  by (relation "measure (\<lambda>(old, new, s). length s)") (auto simp: neq_Nil_conv)

definition output_tx ::
    "datetime \<Rightarrow> string \<Rightarrow> (decimal \<times> string) option \<Rightarrow> (decimal \<times> string) option
       \<Rightarrow> (decimal \<times> string) option \<Rightarrow> note_text \<Rightarrow> KryptosekkenTransaction" where
  "output_tx ts ty incoming outgoing fee nt =
     \<lparr>tidspunkt = Some ts, type = ty,
      inn = map_option fst incoming, inn_valuta = map_option snd incoming,
      ut = map_option fst outgoing, ut_valuta = map_option snd outgoing,
      gebyr = map_option fst fee, gebyr_valuta = map_option snd fee,
      marked = Some ''CakeDeFi'', notat = Some nt, row_num = None\<rparr>"

definition nok_note :: "string \<Rightarrow> decimal \<Rightarrow> note_text" where
  "nok_note txt nok_value = NokText (txt @ '' (NOK value: '') nok_value '')''"

definition convert_single_transaction ::
    "CurrencyConverter \<Rightarrow> CakeTransaction \<Rightarrow> py_error + KryptosekkenTransaction list" where
  "convert_single_transaction c tx =
     (case get_transaction_type (operation tx) (tx_float_amount tx) of
        Inl e \<Rightarrow> Inl e
      | Inr tx_type \<Rightarrow>
         (let nok_value = nok_of c \<bar>fiat_value tx\<bar> (date tx);
              simple_note = simplify_operation (operation tx);
              side = Some (\<bar>amount tx\<bar>, coin_asset tx)
          in if tx_type = INNTEKT then
               Inr [output_tx (date tx) (type_value tx_type) side None None
                      (if nok_value \<noteq> 0 then nok_note simple_note nok_value else Text simple_note)]
             else if tx_type = OVERFORING_INN then
               Inr [output_tx (date tx) (type_value tx_type) side None None (Text simple_note)]
             else if tx_type = OVERFORING_UT then
               Inr [output_tx (date tx) (type_value tx_type) None side None (Text simple_note)]
             else if tx_type = FORVALTNINGSKOSTNAD then
               Inr [output_tx (date tx) (type_value tx_type) None side None (Text simple_note)]
             else if list_ex (\<lambda>op. startswith (operation tx) op)
                       [''Add liquidity'', ''Remove liquidity'', ''Entered Earn'', ''Exited Earn'']
             then
               (if amount tx < 0
                then Inr [output_tx (date tx) (type_value OVERFORING_UT) None side None
                            (Text (simple_note @ '' (incomplete DeFi op)''))]
                else Inr [output_tx (date tx) (type_value OVERFORING_INN) side None None
                            (Text (simple_note @ '' (incomplete DeFi op)''))])
             else
               Inr [output_tx (date tx) (type_value tx_type)
                      (if amount tx > 0 then side else None)
                      (if amount tx < 0 then side else None)
                      None (Text simple_note)]))"

text \<open>Evaluating a list comprehension whose elements may raise: the first error wins.\<close>

fun collect :: "('e + 'a) list \<Rightarrow> 'e + 'a list" where
  "collect [] = Inr []"
| "collect (x # xs) =
     (case x of
        Inl e \<Rightarrow> Inl e
      | Inr v \<Rightarrow> (case collect xs of Inl e \<Rightarrow> Inl e | Inr vs \<Rightarrow> Inr (v # vs)))"

text \<open>The warning printed first reads \<open>group.timestamp\<close>, which raises on an empty group.\<close>

definition fallback_conversion ::
    "CurrencyConverter \<Rightarrow> TransactionGroup \<Rightarrow> py_error + KryptosekkenTransaction list" where
  "fallback_conversion c g =
     (case timestamp g of
        Inl e \<Rightarrow> Inl e
      | Inr ts \<Rightarrow>
         (case collect (map (convert_single_transaction c) (transactions g)) of
            Inl e \<Rightarrow> Inl e
          | Inr sublists \<Rightarrow> Inr (concat sublists)))"

subsection \<open>Swap groups\<close>

text \<open>
  A \<open>defaultdict(Decimal)\<close> in insertion order. \<open>d[k] += v\<close> adds in place, or appends the
  key with \<open>0 + v\<close>; \<open>pop\<close> removes the key.
\<close>

type_synonym flows = "(string \<times> decimal) list"

definition get0 :: "flows \<Rightarrow> string \<Rightarrow> decimal" where
  "get0 d k = (case map_of d k of None \<Rightarrow> 0 | Some v \<Rightarrow> v)"

definition dict_add :: "flows \<Rightarrow> string \<Rightarrow> decimal \<Rightarrow> flows" where
  "dict_add d k v = AList.update k (get0 d k + v) d"

definition has_key :: "flows \<Rightarrow> string \<Rightarrow> bool" where
  "has_key d k = (k \<in> set (map fst d))"

record swap_flows =
  incoming_txs :: flows
  outgoing_txs :: flows
  fee_txs :: flows
  conversion_op_str :: "string option"

definition flow_step :: "CakeTransaction \<Rightarrow> swap_flows \<Rightarrow> swap_flows" where
  "flow_step tx st =
     (let st' =
        (if operation tx = ''Paid swap fee''
         then st\<lparr>fee_txs := dict_add (fee_txs st) (coin_asset tx) \<bar>amount tx\<bar>\<rparr>
         else if amount tx < 0
         then st\<lparr>outgoing_txs := dict_add (outgoing_txs st) (coin_asset tx) \<bar>amount tx\<bar>\<rparr>
         else if amount tx > 0
         then st\<lparr>incoming_txs := dict_add (incoming_txs st) (coin_asset tx) (amount tx)\<rparr>
         else st)
      in if contains ''Converted'' (operation tx)
         then st'\<lparr>conversion_op_str := Some (operation tx)\<rparr>
         else st')"

definition net_step :: "string \<Rightarrow> swap_flows \<Rightarrow> swap_flows" where
  "net_step currency st =
     (if has_key (outgoing_txs st) currency \<or> has_key (fee_txs st) currency then
        (let total_in = get0 (incoming_txs st) currency;
             total_out = get0 (outgoing_txs st) currency + get0 (fee_txs st) currency;
             net_amount = total_in - total_out
         in if \<bar>net_amount\<bar> < 1 / 10 ^ 9
            then st\<lparr>incoming_txs := AList.delete currency (incoming_txs st),
                    outgoing_txs := AList.delete currency (outgoing_txs st),
                    fee_txs := AList.delete currency (fee_txs st)\<rparr>
            else st)
      else st)"

text \<open>The three tables after both loops: what the shape test of the converter looks at.\<close>

definition net_flows :: "TransactionGroup \<Rightarrow> swap_flows" where
  "net_flows g =
     (let st = fold flow_step (transactions g)
                 \<lparr>incoming_txs = [], outgoing_txs = [], fee_txs = [], conversion_op_str = None\<rparr>
      in fold net_step (map fst (incoming_txs st)) st)"

text \<open>\<open>list(d.items())[0]\<close> as a (amount, currency) side; the caller has checked the length.\<close>

definition first_item :: "flows \<Rightarrow> (decimal \<times> string) option" where
  "first_item d = (case d of [] \<Rightarrow> None | (k, v) # _ \<Rightarrow> Some (v, k))"

definition convert_swap_group ::
    "CurrencyConverter \<Rightarrow> TransactionGroup \<Rightarrow> py_error + KryptosekkenTransaction list" where
  "convert_swap_group c g =
     (let st = net_flows g in
      if length (incoming_txs st) = 1 \<and> length (outgoing_txs st) \<ge> 1 then
        (case timestamp g of
           Inl e \<Rightarrow> Inl e
         | Inr ts \<Rightarrow>
             Inr [output_tx ts ''Handel''
                    (first_item (incoming_txs st)) (first_item (outgoing_txs st))
                    (first_item (fee_txs st))
                    (Text (''Swap from '' @ show_nat (length (transactions g)) @ '' txs''))])
      else if length (incoming_txs st) = 1 \<and> outgoing_txs st = []
              \<and> truthy (conversion_op_str st) then
        (let total_inn_value_usd =
               sum_list (map fiat_value (filter (\<lambda>tx. amount tx > 0) (transactions g)))
         in case timestamp g of
              Inl e \<Rightarrow> Inl e
            | Inr ts \<Rightarrow>
                (let nok_value = nok_of c \<bar>total_inn_value_usd\<bar> ts;
                     simple_op =
                       str_replace '' to '' [CHR 0xE2, CHR 0x86, CHR 0x92]
                         (str_replace ''Converted '' [] (the (conversion_op_str st)))
                 in Inr [output_tx ts (type_value INNTEKT)
                           (first_item (incoming_txs st)) None None
                           (nok_note simple_op nok_value)]))
      else fallback_conversion c g)"

subsection \<open>Liquidity groups\<close>

definition convert_add_liquidity_group ::
    "CurrencyConverter \<Rightarrow> TransactionGroup \<Rightarrow> py_error + KryptosekkenTransaction list" where
  "convert_add_liquidity_group c g =
     (let lp_receipt = find (\<lambda>tx. operation tx = ''Added liquidity'') (transactions g);
          provisions = filter (\<lambda>tx. startswith (operation tx) ''Add liquidity'') (transactions g)
      in case (lp_receipt, provisions) of
           (Some receipt, asset1 # others) \<Rightarrow>
             (let nok_value = nok_of c \<bar>fiat_value receipt\<bar> (date receipt)
              in Inr [output_tx (date receipt) (type_value HANDEL)
                        (Some (\<bar>amount receipt\<bar>, coin_asset receipt))
                        (Some (\<bar>amount asset1\<bar>, coin_asset asset1))
                        (case others of
                           [] \<Rightarrow> None
                         | asset2 # _ \<Rightarrow> Some (\<bar>amount asset2\<bar>, coin_asset asset2))
                        (NokText ''Add liquidity (LP token NOK value: '' nok_value '')'')])
         | (None, asset1 # others) \<Rightarrow> Inr []
         | (Some receipt, []) \<Rightarrow>
             (let nok_value = nok_of c \<bar>fiat_value receipt\<bar> (date receipt)
              in Inr [output_tx (date receipt) (type_value OVERFORING_INN)
                        (Some (\<bar>amount receipt\<bar>, coin_asset receipt)) None None
                        (NokText
                           ''Received LP token (incomplete - assets provided separately) (NOK value: ''
                           nok_value '')'')])
         | (None, []) \<Rightarrow> fallback_conversion c g)"

definition convert_remove_liquidity_group ::
    "CurrencyConverter \<Rightarrow> TransactionGroup \<Rightarrow> py_error + KryptosekkenTransaction list" where
  "convert_remove_liquidity_group c g =
     (let lp_disposal = find (\<lambda>tx. operation tx = ''Removed liquidity'') (transactions g);
          returns = filter (\<lambda>tx. startswith (operation tx) ''Remove liquidity'') (transactions g)
      in case (lp_disposal, returns) of
           (Some disposal, asset1 # others) \<Rightarrow>
             (case timestamp g of
                Inl e \<Rightarrow> Inl e
              | Inr ts \<Rightarrow>
                  (let nok_value = nok_of c \<bar>fiat_value disposal\<bar> ts
                   in Inr [output_tx ts (type_value HANDEL)
                             (Some (\<bar>amount asset1\<bar>, coin_asset asset1))
                             (Some (\<bar>amount disposal\<bar>, coin_asset disposal))
                             (case others of
                                [] \<Rightarrow> None
                              | asset2 # _ \<Rightarrow> Some (\<bar>amount asset2\<bar>, coin_asset asset2))
                             (NokText ''Remove liquidity (LP token NOK value: '' nok_value '')'')]))
         | _ \<Rightarrow> fallback_conversion c g)"

subsection \<open>Aggregated rewards and the dispatch\<close>

definition convert_daily_rewards_group ::
    "CurrencyConverter \<Rightarrow> TransactionGroup \<Rightarrow> py_error + KryptosekkenTransaction list" where
  "convert_daily_rewards_group c g =
     (let total_amount = sum_list (map amount (transactions g)) in
      case transactions g of
        [] \<Rightarrow> Inl IndexError
      | template_tx # _ \<Rightarrow>
         (let total_nok_value =
                sum_list (map (\<lambda>tx. nok_of c \<bar>fiat_value tx\<bar> (date tx)) (transactions g));
              timeframe = (if coin_asset template_tx = ''ETH'' then ''Weekly'' else ''Daily'')
          in case timestamp g of
               Inl e \<Rightarrow> Inl e
             | Inr ts \<Rightarrow>
                 Inr [output_tx ts (type_value INNTEKT)
                        (Some (\<bar>total_amount\<bar>, coin_asset template_tx)) None None
                        (NokText
                           (timeframe @ '' '' @ coin_asset template_tx @ '' rewards ''
                              @ show_nat (length (transactions g)) @ '' txs (NOK value: '')
                           total_nok_value '')'')]))"

definition convert_group_to_kryptosekken ::
    "CurrencyConverter \<Rightarrow> TransactionGroup \<Rightarrow> py_error + KryptosekkenTransaction list" where
  "convert_group_to_kryptosekken c g =
     (if group_type g = ''swap'' then convert_swap_group c g
      else if group_type g = ''add_liquidity'' then convert_add_liquidity_group c g
      else if group_type g = ''remove_liquidity'' then convert_remove_liquidity_group c g
      else if group_type g = ''daily_rewards'' then convert_daily_rewards_group c g
      else case transactions g of
             [] \<Rightarrow> Inl IndexError
           | tx # _ \<Rightarrow> convert_single_transaction c tx)"

section \<open>Multi-year balance ledger\<close>







record problem =
  row :: "nat option"
  currency :: string
  attempted :: decimal
  available :: decimal
  deficit :: decimal
  transaction :: string











subsection \<open>Persisted balance state\<close>











section \<open>Validator: net balance per currency\<close>


















section \<open>Main processor: converting the groups of a batch\<close>

text \<open>
  Step 5 of \<open>process_file\<close>: each group is converted in turn; a group whose conversion raises
  contributes nothing (the error is counted in the statistics).
\<close>

definition convert_groups ::
    "CurrencyConverter \<Rightarrow> TransactionGroup list \<Rightarrow> KryptosekkenTransaction list" where
  "convert_groups c groups =
     concat (map (\<lambda>g. case convert_group_to_kryptosekken c g of
                         Inr ks_txs \<Rightarrow> ks_txs
                       | Inl e \<Rightarrow> []) groups)"

text \<open>All events held in a dictionary of lists.\<close>

definition dict_values :: "('k \<times> 'v list) list \<Rightarrow> 'v list" where
  "dict_values d = concat (map snd d)"

section \<open>Sample inputs\<close>

definition event ::
    "int \<Rightarrow> string \<Rightarrow> decimal \<Rightarrow> string \<Rightarrow> decimal \<Rightarrow> string option \<Rightarrow> string option
       \<Rightarrow> CakeTransaction" where
  "event ts op amt coin fiat ref rel =
     \<lparr>date = \<lparr>utc = ts, utcoffset = 0\<rparr>, operation = op, amount = amt, coin_asset = coin,
      fiat_value = fiat, fiat_currency = ''USD'', transaction_id = None,
      withdrawal_address = None, reference = ref, related_reference_id = rel,
      original_index = None\<rparr>"

definition no_rates :: CurrencyConverter where
  "no_rates = \<lparr>rate_cache = Map.empty\<rparr>"










definition zero_deposit :: CakeTransaction where
  "zero_deposit = event 1000 ''Deposit'' 0 ''BTC'' 0 None None"

definition same_time_batch :: "CakeTransaction list" where
  "same_time_batch = [event 1000 ''Withdrawal'' (- 1) ''BTC'' 100 None None,
                      event 1000 ''Add liquidity BTC-DFI'' (- 1) ''BTC'' 100 None (Some ''r1'')]"










text \<open>
  The events still ungrouped after the first two loops of \<open>group_transactions\<close>
  (\<open>single_txs\<close>), and the list kept under a key of a dictionary of lists.
\<close>

definition standalone_events :: "CakeTransaction list \<Rightarrow> CakeTransaction list" where
  "standalone_events txs =
     (let st1 = fold reference_step (filter_transactions txs) ([], [])
      in snd (fold attach_step (snd st1) (fst st1, [])))"

definition entries :: "('k \<times> 'v list) list \<Rightarrow> 'k \<Rightarrow> 'v list" where
  "entries d k = (case map_of d k of None \<Rightarrow> [] | Some vs \<Rightarrow> vs)"

text \<open>Three ETH rewards of one week: one on Monday 1970-01-05, two on the Tuesday.\<close>

definition eth_week :: "CakeTransaction list" where
  "eth_week =
     [event (4 * MICROS_PER_DAY + 100) ''Staking reward'' 1 ''ETH'' 2 None None,
      event (5 * MICROS_PER_DAY + 100) ''Staking reward'' 2 ''ETH'' 4 None None,
      event (5 * MICROS_PER_DAY + 200) ''Staking reward'' 3 ''ETH'' 6 None None]"

definition monday_reward :: CakeTransaction where
  "monday_reward = (eth_week ! 0)\<lparr>original_index := Some 0\<rparr>"


text \<open>A canonical transaction with an incoming or an outgoing amount.\<close>

definition has_side :: "KryptosekkenTransaction \<Rightarrow> bool" where
  "has_side k = (inn k \<noteq> None \<or> ut k \<noteq> None)"


section \<open>Balance ledger: deficits\<close>




section \<open>Grouper: every grouped event is an event of the filtered batch\<close>

lemma set_dict_values_append:
  "set (dict_values (dict_append d k v)) = insert v (set (dict_values d))"
  by (induction d k v rule: dict_append.induct) (auto simp: dict_values_def)

lemma set_reference_step:
  "set (dict_values (fst (reference_step tx st))) \<union> set (snd (reference_step tx st))
     = insert tx (set (dict_values (fst st)) \<union> set (snd st))"
  by (cases st) (auto simp: reference_step_def set_dict_values_append)

lemma set_fold_reference_step:
  "set (dict_values (fst (fold reference_step xs st))) \<union> set (snd (fold reference_step xs st))
     = set xs \<union> set (dict_values (fst st)) \<union> set (snd st)"
proof (induction xs arbitrary: st)
  case Nil show ?case by simp
next
  case (Cons x xs)
  show ?case using Cons.IH [of "reference_step x st"] set_reference_step [of x st]
    by auto
qed

lemma set_attach_step:
  "set (dict_values (fst (attach_step tx st))) \<union> set (snd (attach_step tx st))
     = insert tx (set (dict_values (fst st)) \<union> set (snd st))"
  by (cases st) (auto simp: attach_step_def set_dict_values_append)

lemma set_fold_attach_step:
  "set (dict_values (fst (fold attach_step xs st))) \<union> set (snd (fold attach_step xs st))
     = set xs \<union> set (dict_values (fst st)) \<union> set (snd st)"
proof (induction xs arbitrary: st)
  case Nil show ?case by simp
next
  case (Cons x xs)
  show ?case using Cons.IH [of "attach_step x st"] set_attach_step [of x st]
    by auto
qed

lemma set_split_time_gaps:
  "set (concat (split_time_gaps prev sub ts)) = set sub \<union> set ts"
  by (induction prev sub ts rule: split_time_gaps.induct) auto

lemma set_split_group: "set (concat (split_group l)) = set l"
proof -
  have sl: "set (sort_by_date l) = set l" by (simp add: sort_by_date_def)
  show ?thesis
  proof (cases "sort_by_date l")
    case Nil
    with sl show ?thesis by (simp add: split_group_def)
  next
    case (Cons a rest)
    have "set (concat (split_group l)) = set (concat (split_time_gaps a [a] rest))"
      by (simp add: split_group_def Cons)
    also have "\<dots> = set [a] \<union> set rest" by (rule set_split_time_gaps)
    also have "\<dots> = set (sort_by_date l)" by (simp add: Cons)
    finally show ?thesis using sl by simp
  qed
qed

lemma set_fold_daily_step:
  "set (dict_values (fold daily_step xs d)) \<subseteq> set xs \<union> set (dict_values d)"
proof (induction xs arbitrary: d)
  case Nil show ?case by simp
next
  case (Cons x xs)
  show ?case using Cons.IH [of "daily_step x d"]
    by (auto simp: daily_step_def set_dict_values_append split: if_splits)
qed

lemma in_dict_values: "(k, vs) \<in> set d \<Longrightarrow> x \<in> set vs \<Longrightarrow> x \<in> set (dict_values d)"
  by (force simp: dict_values_def)

lemma daily_reward_groups_members:
  "g \<in> set (daily_reward_groups txs) \<Longrightarrow> set (transactions g) \<subseteq> set txs"
proof
  fix x assume g: "g \<in> set (daily_reward_groups txs)" and x: "x \<in> set (transactions g)"
  from g obtain k l where kl: "(k, l) \<in> set (fold daily_step txs [])"
      and gl: "g = mk_group (sort_by_date l) ''daily_rewards'' None"
    by (auto simp: daily_reward_groups_def)
  from x gl have "x \<in> set l" by (simp add: mk_group_def sort_by_date_def)
  with kl have "x \<in> set (dict_values (fold daily_step txs []))" by (rule in_dict_values)
  with set_fold_daily_step [of txs "[]"] show "x \<in> set txs" by (auto simp: dict_values_def)
qed

lemma set_weekly_step:
  "set (dict_values (weekly_step g d)) = set (transactions g) \<union> set (dict_values d)"
proof -
  have "\<And>d. set (dict_values (fold (\<lambda>tx d. dict_append d m tx) xs d)) = set xs \<union> set (dict_values d)" for m :: int and xs :: "CakeTransaction list"
    by (induction xs) (auto simp: set_dict_values_append)
  then show ?thesis by (simp add: weekly_step_def)
qed

lemma set_fold_weekly_step:
  "set (dict_values (fold weekly_step gs d)) = (\<Union>g\<in>set gs. set (transactions g)) \<union> set (dict_values d)"
  by (induction gs arbitrary: d) (auto simp: set_weekly_step)

lemma weekly_members:
  "g \<in> set (aggregate_eth_daily_to_weekly gs) \<Longrightarrow>
     set (transactions g) \<subseteq> (\<Union>g\<in>set gs. set (transactions g))"
proof
  fix x assume g: "g \<in> set (aggregate_eth_daily_to_weekly gs)" and x: "x \<in> set (transactions g)"
  from g obtain k l where kl: "(k, l) \<in> set (fold weekly_step gs [])"
      and gl: "g = mk_group (sort_by_date l) ''daily_rewards'' None"
    by (auto simp: aggregate_eth_daily_to_weekly_def)
  from x gl have "x \<in> set l" by (simp add: mk_group_def sort_by_date_def)
  with kl have "x \<in> set (dict_values (fold weekly_step gs []))" by (rule in_dict_values)
  with set_fold_weekly_step [of gs "[]"] show "x \<in> (\<Union>g\<in>set gs. set (transactions g))"
    by (auto simp: dict_values_def)
qed

lemma group_daily_rewards_members:
  "g \<in> set (group_daily_rewards txs) \<Longrightarrow> set (transactions g) \<subseteq> set txs"
proof -
  assume g: "g \<in> set (group_daily_rewards txs)"
  let ?eth = "filter (\<lambda>g. coin_asset (hd (transactions g)) = ''ETH'') (daily_reward_groups txs)"
  from g consider "g \<in> set (daily_reward_groups txs)" | "g \<in> set (aggregate_eth_daily_to_weekly ?eth)"
    by (auto simp: group_daily_rewards_def Let_def split: if_splits)
  then show ?thesis
  proof cases
    case 1 then show ?thesis by (rule daily_reward_groups_members)
  next
    case 2
    from weekly_members [OF 2] daily_reward_groups_members show ?thesis by fastforce
  qed
qed

lemma unsorted_groups_members:
  assumes "g \<in> set (unsorted_groups txs)"
  shows "set (transactions g) \<subseteq> set (filter_transactions txs)"
proof -
  let ?f = "filter_transactions txs"
  let ?st1 = "fold reference_step ?f ([], [])"
  let ?st2 = "fold attach_step (snd ?st1) (fst ?st1, [])"
  have s1: "set (dict_values (fst ?st1)) \<union> set (snd ?st1) = set ?f"
    using set_fold_reference_step [of ?f "([], [])"] by (simp add: dict_values_def)
  have s2: "set (dict_values (fst ?st2)) \<union> set (snd ?st2) = set ?f"
    using set_fold_attach_step [of "snd ?st1" "(fst ?st1, [])"] s1 by auto
  from assms consider
      (corr) l where "l \<in> set (concat (map (\<lambda>(ref_id, tx_list). split_group tx_list) (fst ?st2)))" "g = correlated_group l"
    | (rew) "g \<in> set (group_daily_rewards (snd ?st2))"
    | (single) tx where "tx \<in> set (snd ?st2)" "g = mk_group [tx] ''single'' None"
    by (auto simp: unsorted_groups_def Let_def)
  then show ?thesis
  proof cases
    case corr
    then obtain k tl where kt: "(k, tl) \<in> set (fst ?st2)" "l \<in> set (split_group tl)" by auto
    then have "set l \<subseteq> set tl" using set_split_group [of tl] by auto
    with kt(1) have "set l \<subseteq> set (dict_values (fst ?st2))"
      using in_dict_values [of k tl "fst ?st2"] by blast
    with s2 have "set l \<subseteq> set ?f" by blast
    with corr(2) show ?thesis by (simp add: correlated_group_def mk_group_def)
  next
    case rew
    from group_daily_rewards_members [OF rew] s2 show ?thesis by auto
  next
    case single
    with s2 show ?thesis by (auto simp: mk_group_def)
  qed
qed

lemma group_transactions_members:
  "g \<in> set (group_transactions txs) \<Longrightarrow> set (transactions g) \<subseteq> set (filter_transactions txs)"
  by (simp add: group_transactions_def unsorted_groups_members)

section \<open>Classifier: the sign-dependent label\<close>



section \<open>Currency converter: lookup and rounding\<close>

lemma first_rate_skip:
  "list_all (\<lambda>x. cache x = None) xs \<Longrightarrow> first_rate cache (xs @ ys) = first_rate cache ys"
  by (induction xs) auto











section \<open>Aggregated rewards\<close>




section \<open>Canonical transactions: one side present\<close>

text \<open>
  Claim C8 at a zero amount. A deposit of amount 0 without a group id becomes a singleton
  group; its label maps to acquisition, which takes the last branch of
  \<open>_convert_single_transaction\<close>: the incoming side needs a positive amount, the outgoing
  side a negative one, and the transaction is emitted with neither.
\<close>

theorem zero_amount_singleton_has_no_side:
  "map group_type (group_transactions [zero_deposit]) = [''single'']
   \<and> map (\<lambda>tx. (type tx, inn tx, ut tx)) (convert_groups no_rates (group_transactions [zero_deposit]))
       = [(''Erverv'', None, None)]"
  by code_simp

section \<open>Grouper: the final order\<close>

text \<open>
  Claim C3 at two groups of one instant. A withdrawal (input position 0) and an add-liquidity
  leg with a group id (position 1) carry the same timestamp. The grouper types the second
  group \<open>add_liquidity\<close>; the priority function tests for the type \<open>liquidity\<close>, which no group
  has, so both groups get priority 4 and the withdrawal stays first.
\<close>

theorem liquidity_group_has_lowest_priority:
  "map group_type (group_transactions same_time_batch) = [''single'', ''add_liquidity'']
   \<and> map get_group_economic_priority (group_transactions same_time_batch) = [4, 4]
   \<and> map group_sort_key (group_transactions same_time_batch) = [(1000, 4, 0), (1000, 4, 1)]"
  by code_simp

section \<open>Swap groups: the emitted trade\<close>





section \<open>Validator: severity of a negative net balance\<close>















section \<open>Persisted balance state: saving and reloading\<close>















section \<open>Reward aggregation: groups of two or more\<close>

lemma keys_dict_append: "set (map fst (dict_append d k v)) = insert k (set (map fst d))"
  by (induction d k v rule: dict_append.induct) auto

lemma distinct_dict_append:
  "distinct (map fst d) \<Longrightarrow> distinct (map fst (dict_append d k v))"
proof (induction d k v rule: dict_append.induct)
  case (1 k v) show ?case by simp
next
  case (2 k' vs d k v)
  then show ?case using keys_dict_append [of d k v] by auto
qed

lemma entries_dict_append:
  "entries (dict_append d k v) k' = (if k = k' then entries d k' @ [v] else entries d k')"
  by (induction d k v rule: dict_append.induct) (auto simp: entries_def)

lemma entries_member: "distinct (map fst d) \<Longrightarrow> (k, l) \<in> set d \<Longrightarrow> entries d k = l"
  by (simp add: entries_def)

lemma fold_daily_step_invariant:
  "distinct (map fst d) \<Longrightarrow>
     distinct (map fst (fold daily_step xs d))
     \<and> (\<forall>k. entries (fold daily_step xs d) k
              = entries d k @ filter (\<lambda>u. is_income_tx u \<and> daily_key u = k) xs)"
proof (induction xs arbitrary: d)
  case Nil then show ?case by simp
next
  case (Cons x xs)
  have "distinct (map fst (daily_step x d))"
    using Cons.prems by (simp add: daily_step_def distinct_dict_append)
  from Cons.IH [OF this] show ?case
    by (auto simp: daily_step_def entries_dict_append)
qed

lemma daily_group_is_filter:
  assumes "(k, l) \<in> set (fold daily_step txs [])"
  shows "l = filter (\<lambda>u. is_income_tx u \<and> daily_key u = k) txs"
proof -
  have "distinct (map fst ([] :: ((int \<times> string) \<times> CakeTransaction list) list))" by simp
  note inv = fold_daily_step_invariant [OF this, of txs]
  from inv have d: "distinct (map fst (fold daily_step txs []))" by (rule conjunct1)
  from inv have "\<forall>k. entries (fold daily_step txs []) k
              = entries [] k @ filter (\<lambda>u. is_income_tx u \<and> daily_key u = k) txs"
    by (rule conjunct2)
  then have "entries (fold daily_step txs []) k
              = entries [] k @ filter (\<lambda>u. is_income_tx u \<and> daily_key u = k) txs"
    by (rule spec)
  moreover have "entries (fold daily_step txs []) k = l" using d assms by (rule entries_member)
  ultimately show ?thesis by (simp add: entries_def)
qed

lemma daily_reward_group_shape:
  assumes "g \<in> set (daily_reward_groups txs)"
  shows "2 \<le> length (transactions g)
         \<and> (\<forall>tx \<in> set (transactions g).
               length (filter (\<lambda>u. is_income_tx u \<and> daily_key u = daily_key tx) txs)
                 = length (transactions g))"
proof -
  from assms obtain k l where kl: "(k, l) \<in> set (fold daily_step txs [])" "1 < length l"
      and g: "g = mk_group (sort_by_date l) ''daily_rewards'' None"
    by (auto simp: daily_reward_groups_def)
  have l: "l = filter (\<lambda>u. is_income_tx u \<and> daily_key u = k) txs"
    using kl(1) by (rule daily_group_is_filter)
  have members: "set (transactions g) = set l" and size: "length (transactions g) = length l"
    using g by (simp_all add: mk_group_def sort_by_date_def)
  have "length (filter (\<lambda>u. is_income_tx u \<and> daily_key u = daily_key tx) txs) = length (transactions g)"
    if "tx \<in> set (transactions g)" for tx
  proof -
    from that members have "tx \<in> set l" by simp
    then have "tx \<in> set (filter (\<lambda>u. is_income_tx u \<and> daily_key u = k) txs)" using l by simp
    then have "daily_key tx = k" by simp
    then have "filter (\<lambda>u. is_income_tx u \<and> daily_key u = daily_key tx) txs = l" using l by simp
    then show ?thesis using size by simp
  qed
  moreover have "2 \<le> length (transactions g)" using size kl(2) by simp
  ultimately show ?thesis by blast
qed

lemma weekly_group_size:
  "g \<in> set (aggregate_eth_daily_to_weekly gs) \<Longrightarrow> 2 \<le> length (transactions g)"
  by (auto simp: aggregate_eth_daily_to_weekly_def mk_group_def sort_by_date_def)

lemma reward_group_size:
  assumes "g \<in> set (group_daily_rewards txs)"
  shows "2 \<le> length (transactions g)"
proof -
  let ?eth = "filter (\<lambda>g. coin_asset (hd (transactions g)) = ''ETH'') (daily_reward_groups txs)"
  from assms consider "g \<in> set (daily_reward_groups txs)" | "g \<in> set (aggregate_eth_daily_to_weekly ?eth)"
    by (auto simp: group_daily_rewards_def Let_def split: if_splits)
  then show ?thesis
  proof cases
    case 1 then show ?thesis using daily_reward_group_shape by blast
  next
    case 2 then show ?thesis by (rule weekly_group_size)
  qed
qed

lemma lone_not_in_daily_group:
  assumes lone: "filter (\<lambda>u. is_income_tx u \<and> daily_key u = daily_key tx) txs = [tx]"
    and g: "g \<in> set (daily_reward_groups txs)"
  shows "tx \<notin> set (transactions g)"
proof
  assume mem: "tx \<in> set (transactions g)"
  from daily_reward_group_shape [OF g] mem
  have "2 \<le> length (transactions g)"
    "length (filter (\<lambda>u. is_income_tx u \<and> daily_key u = daily_key tx) txs) = length (transactions g)"
    by blast+
  with lone show False by simp
qed

lemma lone_not_in_reward_group:
  assumes lone: "filter (\<lambda>u. is_income_tx u \<and> daily_key u = daily_key tx) txs = [tx]"
    and g: "g \<in> set (group_daily_rewards txs)"
  shows "tx \<notin> set (transactions g)"
proof -
  let ?eth = "filter (\<lambda>g. coin_asset (hd (transactions g)) = ''ETH'') (daily_reward_groups txs)"
  from g consider "g \<in> set (daily_reward_groups txs)" | "g \<in> set (aggregate_eth_daily_to_weekly ?eth)"
    by (auto simp: group_daily_rewards_def Let_def split: if_splits)
  then show ?thesis
  proof cases
    case 1 with lone show ?thesis by (rule lone_not_in_daily_group)
  next
    case 2
    show ?thesis
    proof
      assume "tx \<in> set (transactions g)"
      with weekly_members [OF 2] obtain g' where "g' \<in> set ?eth" "tx \<in> set (transactions g')"
        by blast
      then have "g' \<in> set (daily_reward_groups txs)" "tx \<in> set (transactions g')" by simp_all
      with lone_not_in_daily_group [OF lone] show False by blast
    qed
  qed
qed

lemma index_of_assigned:
  "x \<in> set (assign_indices txs) \<Longrightarrow> \<exists>i < length txs. x = (txs ! i)\<lparr>original_index := Some i\<rparr>"
  by (auto simp: assign_indices_def in_set_enumerate_eq)

lemma assigned_index_unique:
  assumes "x \<in> set (assign_indices txs)" "y \<in> set (assign_indices txs)"
    "original_index x = original_index y"
  shows "x = y"
proof -
  from assms(1) obtain i where i: "x = (txs ! i)\<lparr>original_index := Some i\<rparr>"
    using index_of_assigned by blast
  from assms(2) obtain j where j: "y = (txs ! j)\<lparr>original_index := Some j\<rparr>"
    using index_of_assigned by blast
  from assms(3) i j have "i = j" by simp
  with i j show ?thesis by simp
qed

lemma standalone_subset: "set (standalone_events txs) \<subseteq> set (assign_indices txs)"
proof -
  let ?f = "filter_transactions txs"
  let ?st1 = "fold reference_step ?f ([], [])"
  let ?st2 = "fold attach_step (snd ?st1) (fst ?st1, [])"
  have s1: "set (dict_values (fst ?st1)) \<union> set (snd ?st1) = set ?f"
    using set_fold_reference_step [of ?f "([], [])"] by (simp add: dict_values_def)
  have s2: "set (dict_values (fst ?st2)) \<union> set (snd ?st2) = set ?f"
    using set_fold_attach_step [of "snd ?st1" "(fst ?st1, [])"] s1 by auto
  then have "set (snd ?st2) \<subseteq> set ?f" by blast
  then show ?thesis by (auto simp: standalone_events_def Let_def filter_transactions_def)
qed

lemma unsorted_groups_parts:
  "\<exists>correlated. unsorted_groups txs =
      map correlated_group correlated
      @ group_daily_rewards (standalone_events txs)
      @ map (\<lambda>tx. mk_group [tx] ''single'' None)
          (filter (\<lambda>tx. original_index tx \<notin> set (concat (map (\<lambda>g. map original_index (transactions g))
                                                     (group_daily_rewards (standalone_events txs)))))
             (standalone_events txs))"
  by (simp add: unsorted_groups_def standalone_events_def Let_def) blast

lemma correlated_group_type: "group_type (correlated_group l) \<noteq> ''daily_rewards''"
  by (simp add: correlated_group_def mk_group_def determine_group_type_def)

lemma lone_in_batch:
  assumes lone: "filter (\<lambda>u. is_income_tx u \<and> daily_key u = daily_key tx) (standalone_events txs) = [tx]"
  shows "mk_group [tx] ''single'' None \<in> set (group_transactions txs)"
    and "\<forall>g \<in> set (group_transactions txs). group_type g = ''daily_rewards'' \<longrightarrow> tx \<notin> set (transactions g)"
proof -
  let ?s = "standalone_events txs"
  let ?r = "group_daily_rewards ?s"
  let ?ids = "concat (map (\<lambda>g. map original_index (transactions g)) ?r)"
  from unsorted_groups_parts [of txs] obtain correlated where
    parts: "unsorted_groups txs = map correlated_group correlated @ ?r
      @ map (\<lambda>tx. mk_group [tx] ''single'' None) (filter (\<lambda>tx. original_index tx \<notin> set ?ids) ?s)"
    by blast
  have tx_in: "tx \<in> set ?s"
  proof -
    have "tx \<in> set (filter (\<lambda>u. is_income_tx u \<and> daily_key u = daily_key tx) ?s)"
      by (simp only: lone) simp
    then show ?thesis by simp
  qed
  have not_grouped: "tx \<notin> set (transactions g)" if "g \<in> set ?r" for g
    using lone that by (rule lone_not_in_reward_group)
  have "original_index tx \<notin> set ?ids"
  proof
    assume "original_index tx \<in> set ?ids"
    then obtain g u where gu: "g \<in> set ?r" "u \<in> set (transactions g)" "original_index u = original_index tx"
      by auto
    from gu(1,2) group_daily_rewards_members have "u \<in> set ?s" by blast
    with tx_in standalone_subset have "u \<in> set (assign_indices txs)" "tx \<in> set (assign_indices txs)"
      by blast+
    with gu(3) have "u = tx" using assigned_index_unique by blast
    with gu(1,2) not_grouped show False by blast
  qed
  with tx_in have "mk_group [tx] ''single'' None \<in> set (unsorted_groups txs)"
    by (simp add: parts)
  then show "mk_group [tx] ''single'' None \<in> set (group_transactions txs)"
    by (simp add: group_transactions_def)
  show "\<forall>g \<in> set (group_transactions txs). group_type g = ''daily_rewards'' \<longrightarrow> tx \<notin> set (transactions g)"
  proof (intro ballI impI)
    fix g assume g: "g \<in> set (group_transactions txs)" and ty: "group_type g = ''daily_rewards''"
    from g have "g \<in> set (unsorted_groups txs)" by (simp add: group_transactions_def)
    with ty have "g \<in> set ?r"
      using correlated_group_type by (auto simp: parts mk_group_def)
    then show "tx \<notin> set (transactions g)" by (rule not_grouped)
  qed
qed

text \<open>
  Claim C10. Every group formed by the reward aggregation, daily or weekly, has at least two
  members. An income event that is the only standalone income event of its calendar day and
  currency is in no rewards group, and the grouper emits it as a singleton; this holds for
  ETH as for any currency, since the weekly ETH groups are collected from the daily groups
  only. Of three ETH rewards of one week, one on Monday and two on Tuesday, the Monday event
  stays a singleton and the two others form the rewards group.
\<close>

theorem reward_groups_need_two_events:
  "(\<forall>g \<in> set (group_daily_rewards txs). 2 \<le> length (transactions g))
   \<and> (\<forall>g \<in> set (aggregate_eth_daily_to_weekly gs). 2 \<le> length (transactions g))
   \<and> (filter (\<lambda>u. is_income_tx u \<and> daily_key u = daily_key tx) txs = [tx] \<longrightarrow>
        (\<forall>g \<in> set (group_daily_rewards txs). tx \<notin> set (transactions g)))
   \<and> (filter (\<lambda>u. is_income_tx u \<and> daily_key u = daily_key tx) (standalone_events batch) = [tx]
        \<longrightarrow> mk_group [tx] ''single'' None \<in> set (group_transactions batch)
            \<and> (\<forall>g \<in> set (group_transactions batch).
                  group_type g = ''daily_rewards'' \<longrightarrow> tx \<notin> set (transactions g)))
   \<and> map (\<lambda>g. (group_type g, map amount (transactions g))) (group_transactions eth_week)
       = [(''single'', [1]), (''daily_rewards'', [2, 3])]"
proof -
  have sizes: "\<forall>g \<in> set (group_daily_rewards txs). 2 \<le> length (transactions g)"
    using reward_group_size by blast
  have weekly: "\<forall>g \<in> set (aggregate_eth_daily_to_weekly gs). 2 \<le> length (transactions g)"
    using weekly_group_size by blast
  have lone: "filter (\<lambda>u. is_income_tx u \<and> daily_key u = daily_key tx) txs = [tx] \<longrightarrow>
        (\<forall>g \<in> set (group_daily_rewards txs). tx \<notin> set (transactions g))"
    using lone_not_in_reward_group by blast
  have single: "filter (\<lambda>u. is_income_tx u \<and> daily_key u = daily_key tx) (standalone_events batch) = [tx]
        \<longrightarrow> mk_group [tx] ''single'' None \<in> set (group_transactions batch)
            \<and> (\<forall>g \<in> set (group_transactions batch).
                  group_type g = ''daily_rewards'' \<longrightarrow> tx \<notin> set (transactions g))"
    using lone_in_batch [of tx batch] by blast
  have week: "map (\<lambda>g. (group_type g, map amount (transactions g))) (group_transactions eth_week)
       = [(''single'', [1]), (''daily_rewards'', [2, 3])]"
    by code_simp
  from sizes weekly lone single week show ?thesis by blast
qed

theorem reward_groups_need_two_events_witness:
  "filter (\<lambda>u. is_income_tx u \<and> daily_key u = daily_key monday_reward) (standalone_events eth_week)
     = [monday_reward]
   \<and> mk_group [monday_reward] ''single'' None \<in> set (group_transactions eth_week)
   \<and> group_daily_rewards (standalone_events eth_week) \<noteq> []
   \<and> list_all (\<lambda>g. 2 \<le> length (transactions g) \<and> monday_reward \<notin> set (transactions g))
        (group_daily_rewards (standalone_events eth_week))"
proof -
  have lone: "filter (\<lambda>u. is_income_tx u \<and> daily_key u = daily_key monday_reward)
                (standalone_events eth_week) = [monday_reward]"
    by code_simp
  have some: "group_daily_rewards (standalone_events eth_week) \<noteq> []"
    by code_simp
  from reward_groups_need_two_events [of "standalone_events eth_week" "[]" monday_reward eth_week]
       lone some
  show ?thesis by (simp add: list_all_iff)
qed

section \<open>Grouper: well-formed output\<close>

text \<open>
  Every group the grouper returns has a member, hence a timestamp, and every member carries
  its input position: the sort key of the final sort reads only defined values. The daily
  groups handed to the weekly aggregation have members as well. The returned list is sorted
  by that key.
\<close>

lemma split_time_gaps_nonempty:
  "sub \<noteq> [] \<Longrightarrow> l \<in> set (split_time_gaps prev sub ts) \<Longrightarrow> l \<noteq> []"
  by (induction prev sub ts rule: split_time_gaps.induct) (auto split: if_splits)

lemma split_group_nonempty:
  assumes "l \<in> set (split_group tx_list)"
  shows "l \<noteq> []"
proof (cases "sort_by_date tx_list")
  case Nil
  with assms show ?thesis by (simp add: split_group_def)
next
  case (Cons t ts)
  with assms have "l \<in> set (split_time_gaps t [t] ts)" by (simp add: split_group_def)
  then show ?thesis using split_time_gaps_nonempty [of "[t]" l t ts] by simp
qed

lemma unsorted_groups_nonempty:
  assumes "g \<in> set (unsorted_groups txs)"
  shows "transactions g \<noteq> []"
proof -
  let ?f = "filter_transactions txs"
  let ?st1 = "fold reference_step ?f ([], [])"
  let ?st2 = "fold attach_step (snd ?st1) (fst ?st1, [])"
  from assms consider
      (corr) l where "l \<in> set (concat (map (\<lambda>(ref_id, tx_list). split_group tx_list) (fst ?st2)))" "g = correlated_group l"
    | (rew) "g \<in> set (group_daily_rewards (snd ?st2))"
    | (single) tx where "tx \<in> set (snd ?st2)" "g = mk_group [tx] ''single'' None"
    by (auto simp: unsorted_groups_def Let_def)
  then show ?thesis
  proof cases
    case corr
    then obtain k tx_list where "l \<in> set (split_group tx_list)" by auto
    then have "l \<noteq> []" by (rule split_group_nonempty)
    with corr(2) show ?thesis by (simp add: correlated_group_def mk_group_def)
  next
    case rew
    from reward_group_size [OF rew] show ?thesis by auto
  next
    case single
    then show ?thesis by (simp add: mk_group_def)
  qed
qed

lemma group_transactions_well_formed:
  assumes "g \<in> set (group_transactions txs)"
  shows "transactions g \<noteq> []"
    and "\<exists>ts. timestamp g = Inr ts"
    and "\<forall>tx \<in> set (transactions g). original_index tx \<noteq> None"
proof -
  from assms show ne: "transactions g \<noteq> []"
    by (simp add: group_transactions_def unsorted_groups_nonempty)
  then show "\<exists>ts. timestamp g = Inr ts"
    by (cases "transactions g") (auto simp: timestamp_def)
  show "\<forall>tx \<in> set (transactions g). original_index tx \<noteq> None"
  proof
    fix tx assume "tx \<in> set (transactions g)"
    with assms group_transactions_members have "tx \<in> set (filter_transactions txs)" by blast
    then have "tx \<in> set (assign_indices txs)" by (simp add: filter_transactions_def)
    then show "original_index tx \<noteq> None" using index_of_assigned by fastforce
  qed
qed

lemma group_transactions_sorted: "sorted (map group_sort_key (group_transactions txs))"
  by (simp add: group_transactions_def)

lemma rewards_first_member:
  "g \<in> set (daily_reward_groups txs) \<Longrightarrow> transactions g \<noteq> []"
  using daily_reward_group_shape [of g txs] by auto

section \<open>Grouper: the priorities in use\<close>

text \<open>
  The groups of the grouper have one of five types, none of them \<open>liquidity\<close>: priority 3
  is never assigned.
\<close>

lemma reward_group_type:
  "g \<in> set (group_daily_rewards txs) \<Longrightarrow> group_type g = ''daily_rewards''"
  by (auto simp: group_daily_rewards_def daily_reward_groups_def aggregate_eth_daily_to_weekly_def
        mk_group_def Let_def split: if_splits)

lemma group_types:
  assumes "g \<in> set (group_transactions txs)"
  shows "group_type g \<in> {''swap'', ''add_liquidity'', ''remove_liquidity'', ''daily_rewards'', ''single''}"
proof -
  from assms have "g \<in> set (unsorted_groups txs)" by (simp add: group_transactions_def)
  with unsorted_groups_parts [of txs] reward_group_type show ?thesis
    by (auto simp: correlated_group_def mk_group_def determine_group_type_def split: if_splits)
qed

lemma priority_three_unreachable:
  "g \<in> set (group_transactions txs) \<Longrightarrow> get_group_economic_priority g \<noteq> 3"
  using group_types [of g txs] by (auto simp: get_group_economic_priority_def)

section \<open>Group converter: sides of the emitted transactions\<close>

text \<open>
  When no member of a group has amount zero, every transaction emitted for the group, by
  any path, has an incoming or an outgoing amount.
\<close>

lemma single_has_side:
  "convert_single_transaction c tx = Inr ks \<Longrightarrow> amount tx \<noteq> 0 \<Longrightarrow> list_all has_side ks"
  by (auto simp: convert_single_transaction_def Let_def output_tx_def has_side_def
        split: sum.splits if_splits)

lemma collect_all:
  "collect (map f xs) = Inr ys \<Longrightarrow> (\<And>x y. x \<in> set xs \<Longrightarrow> f x = Inr y \<Longrightarrow> list_all P y)
     \<Longrightarrow> list_all P (concat ys)"
proof (induction xs arbitrary: ys)
  case Nil then show ?case by simp
next
  case (Cons x xs)
  from Cons.prems(1) obtain y ys' where y: "f x = Inr y" "collect (map f xs) = Inr ys'" "ys = y # ys'"
    by (auto split: sum.splits)
  have "list_all P y" using Cons.prems(2) [of x y] y(1) by simp
  moreover have "list_all P (concat ys')"
    using y(2) Cons.prems(2) by (intro Cons.IH) auto
  ultimately show ?case by (simp add: y(3))
qed

lemma fallback_has_side:
  assumes "fallback_conversion c g = Inr ks" "list_all (\<lambda>tx. amount tx \<noteq> 0) (transactions g)"
  shows "list_all has_side ks"
proof -
  from assms(1) obtain ys where ys: "collect (map (convert_single_transaction c) (transactions g)) = Inr ys"
      "ks = concat ys"
    by (auto simp: fallback_conversion_def split: sum.splits)
  have "list_all has_side (concat ys)"
    using ys(1)
  proof (rule collect_all)
    fix x y assume "x \<in> set (transactions g)" "convert_single_transaction c x = Inr y"
    with assms(2) show "list_all has_side y" using single_has_side by (auto simp: list_all_iff)
  qed
  with ys(2) show ?thesis by simp
qed

lemma group_has_side:
  assumes "convert_group_to_kryptosekken c g = Inr ks" "list_all (\<lambda>tx. amount tx \<noteq> 0) (transactions g)"
  shows "list_all has_side ks"
proof -
  have swap: "convert_swap_group c g = Inr ks \<Longrightarrow> list_all has_side ks"
    using fallback_has_side [OF _ assms(2)]
    by (auto simp: convert_swap_group_def Let_def output_tx_def has_side_def first_item_def
          split: sum.splits if_splits list.splits prod.splits)
  have add: "convert_add_liquidity_group c g = Inr ks \<Longrightarrow> list_all has_side ks"
    using fallback_has_side [OF _ assms(2)]
    by (auto simp: convert_add_liquidity_group_def Let_def output_tx_def has_side_def
          split: sum.splits if_splits list.splits option.splits)
  have remove: "convert_remove_liquidity_group c g = Inr ks \<Longrightarrow> list_all has_side ks"
    using fallback_has_side [OF _ assms(2)]
    by (auto simp: convert_remove_liquidity_group_def Let_def output_tx_def has_side_def
          split: sum.splits if_splits list.splits option.splits)
  have daily: "convert_daily_rewards_group c g = Inr ks \<Longrightarrow> list_all has_side ks"
    by (auto simp: convert_daily_rewards_group_def Let_def output_tx_def has_side_def
          split: sum.splits if_splits list.splits)
  have single: "\<And>tx rest. transactions g = tx # rest \<Longrightarrow> convert_single_transaction c tx = Inr ks
      \<Longrightarrow> list_all has_side ks"
    using assms(2) single_has_side by auto
  from assms(1) swap add remove daily single show ?thesis
    by (auto simp: convert_group_to_kryptosekken_def split: if_splits list.splits)
qed

end
